theory Spec2Isabelle
  imports Main "HOL-Library.Word"
begin

unbundle bit_operations_syntax

section \<open>Errors\<close>

text \<open>
  Go errors are values. \<open>Err msg\<close> is \<open>fmt.Errorf(msg)\<close>, \<open>Errd msg n\<close> is a message
  formatted with one \<open>%d\<close> argument, \<open>Errs msg e\<close> is \<open>fmt.Errorf("msg: %s", e)\<close> (the text
  of \<open>e\<close> is kept, \<open>e\<close> is not wrapped), and \<open>Wrap msg e\<close> is \<open>fmt.Errorf("msg: %w", e)\<close>.
  A function returning \<open>error\<close> returns \<open>error option\<close>; \<open>None\<close> is \<open>nil\<close>.
\<close>

datatype error = Err string | Errd string int | Errs string error | Wrap string error

text \<open>The sentinel \<open>errors.ErrUnsupported\<close>.\<close>

definition ErrUnsupported :: error where
  "ErrUnsupported = Err ''unsupported operation''"

text \<open>
  The idiom \<open>if err := step; err != nil { return wrap(err) }\<close> followed by the rest
  of the function: \<open>m\<close> is the outcome of the step (its error and the state it left),
  \<open>k\<close> the rest of the function, run only when the step returned \<open>nil\<close>.
\<close>

definition check ::
  "error option \<times> 'st \<Rightarrow> (error \<Rightarrow> error) \<Rightarrow> ('st \<Rightarrow> error option \<times> 'st) \<Rightarrow> error option \<times> 'st" where
  "check m wrap k = (case m of (Some err, st) \<Rightarrow> (Some (wrap err), st) | (None, st) \<Rightarrow> k st)"

section \<open>Health checker (internal/speaker/healthcheck.go)\<close>

definition healthyThreshold :: int where
  "healthyThreshold = 3"

datatype Status = Unhealthy | Healthy

text \<open>
  The fields of \<open>HealthCheck\<close> that \<open>Run\<close> reads and writes. \<open>u\<close> holds the rendering
  \<open>hc.u.String()\<close> of the parsed URL. \<open>okCounter\<close> is a Go \<open>int\<close>; it is only ever
  incremented while below \<open>healthyThreshold\<close>, so the unbounded \<open>int\<close> never differs from
  the machine integer.
\<close>

record HealthCheck =
  status :: Status
  u :: string
  okCounter :: int

text \<open>
  \<open>NewHealthCheck\<close>: the argument is the outcome of \<open>url.Parse(rawURL)\<close>. The zero value
  of \<open>okCounter\<close> is 0.
\<close>

definition NewHealthCheck :: "error + string \<Rightarrow> error + HealthCheck" where
  "NewHealthCheck parsed =
     (case parsed of
        Inl err \<Rightarrow> Inl (Wrap ''HealthCheck: parse url error'' err)
      | Inr url \<Rightarrow> Inr \<lparr>status = Unhealthy, u = url, okCounter = 0\<rparr>)"

text \<open>
  The HTTP response as \<open>Do\<close> sees it: the status code and the outcome of draining the
  body with \<open>io.Copy(io.Discard, resp.Body)\<close>.
\<close>

record Response =
  StatusCode :: int
  BodyCopy :: "error option"

text \<open>\<open>HealthCheck.Do\<close>; the argument is the outcome of \<open>hc.client.Do\<close>.\<close>

definition Do :: "error + Response \<Rightarrow> error option" where
  "Do r =
     (case r of
        Inl err \<Rightarrow> Some (Wrap ''HealthCheck: http get failed'' err)
      | Inr resp \<Rightarrow>
          (case BodyCopy resp of
             Some err \<Rightarrow> Some (Wrap ''HealthCheck: read response failed'' err)
           | None \<Rightarrow>
               if StatusCode resp \<noteq> 200
               then Some (Errd ''HealthCheck: unexpected status code'' (StatusCode resp))
               else None))"

text \<open>
  What the outside world supplies on one tick of the ticker: the outcome of the HTTP
  request, and what the callback returns if the loop body invokes one (the body invokes
  at most one callback per tick).
\<close>

record tick =
  http :: "error + Response"
  cb :: "error option"

datatype callback = CbHealthy | CbUnhealthy

text \<open>
  The body of the \<open>case <-ticker.C\<close> branch of \<open>HealthCheck.Run\<close>. It returns the
  updated health check and the callback it invoked, if any.
\<close>

definition on_tick :: "HealthCheck \<Rightarrow> tick \<Rightarrow> HealthCheck \<times> callback option" where
  "on_tick hc t =
     (let err = Do (http t) in
      if err \<noteq> None \<and> status hc = Healthy then
        (case cb t of
           Some e \<Rightarrow> (hc, Some CbUnhealthy)
         | None \<Rightarrow> (hc\<lparr>status := Unhealthy, okCounter := 0\<rparr>, Some CbUnhealthy))
      else if err = None \<and> status hc = Unhealthy then
        (if okCounter hc \<ge> healthyThreshold then
           (case cb t of
              Some e \<Rightarrow> (hc, Some CbHealthy)
            | None \<Rightarrow> (hc\<lparr>status := Healthy\<rparr>, Some CbHealthy))
         else (hc\<lparr>okCounter := okCounter hc + 1\<rparr>, None))
      else (hc, None))"

text \<open>
  The \<open>for\<close>/\<open>select\<close> loop: the list holds the ticks delivered before the context is
  cancelled. The result is the final health check and, tick by tick, the callback
  invoked.
\<close>

fun ticks_loop :: "HealthCheck \<Rightarrow> tick list \<Rightarrow> HealthCheck \<times> callback option list" where
  "ticks_loop hc [] = (hc, [])"
| "ticks_loop hc (t # ts) =
     (case on_tick hc t of
        (hc', c) \<Rightarrow> (case ticks_loop hc' ts of (hc'', cs) \<Rightarrow> (hc'', c # cs)))"

text \<open>
  \<open>HealthCheck.Run\<close>: with an empty URL it only waits for cancellation; otherwise it
  runs the loop. It returns \<open>nil\<close> in both cases, so only the state and the callbacks
  are kept.
\<close>

definition Run :: "HealthCheck \<Rightarrow> tick list \<Rightarrow> HealthCheck \<times> callback option list" where
  "Run hc ts = (if u hc = [] then (hc, []) else ticks_loop hc ts)"


section \<open>Configuration (internal/speaker/config.go)\<close>

record Neighbor =
  Address :: string
  NeighborASN :: "32 word"

record Config =
  AnycastIP :: string
  ASN :: "32 word"
  Neighbors :: "Neighbor list"
  HealthCheckURL :: string
  UpdateFIBMetric :: "32 word option"

section \<open>Messages of the BGP engine's API\<close>

text \<open>
  The request messages of the embedded engine that the controller builds, with the
  fields it sets.
\<close>

record Global =
  Asn :: "32 word"
  RouterId :: string
  ListenPort :: int

record PeerConf =
  NeighborAddress :: string
  PeerAsn :: "32 word"

datatype DefinedType = DefinedType_PREFIX | DefinedType_NEIGHBOR

record ApiPrefix =
  IpPrefix :: string
  MaskLengthMin :: nat
  MaskLengthMax :: nat

record DefinedSet =
  ds_DefinedType :: DefinedType
  ds_Name :: string
  ds_Prefixes :: "ApiPrefix list"
  ds_List :: "string list"

datatype MatchSetType = MatchSet_ANY

record MatchSet =
  ms_Type :: MatchSetType
  ms_Name :: string

datatype ConditionsRouteType = ROUTE_TYPE_NONE | ROUTE_TYPE_LOCAL

record Conditions =
  PrefixSet :: "MatchSet option"
  NeighborSet :: "MatchSet option"
  RouteType :: ConditionsRouteType

datatype RouteAction = RouteAction_ACCEPT | RouteAction_REJECT

record Statement =
  st_Name :: string
  st_Conditions :: Conditions
  st_RouteAction :: RouteAction

record Policy =
  pol_Name :: string
  Statements :: "Statement list"

datatype PolicyDirection = PolicyDirection_IMPORT | PolicyDirection_EXPORT

record PolicyAssignment =
  pa_Name :: string
  Direction :: PolicyDirection
  Policies :: "Policy list"
  DefaultAction :: RouteAction

datatype FamilyAfi = Family_AFI_IP
datatype FamilySafi = Family_SAFI_UNICAST

record ApiFamily =
  Afi :: FamilyAfi
  Safi :: FamilySafi

record IPAddressPrefix =
  ipp_Prefix :: string
  PrefixLen :: nat

text \<open>
  A path attribute is a packed message. \<open>MalformedNextHopAttribute err\<close> is a message
  whose type is \<open>NextHopAttribute\<close> but whose \<open>UnmarshalTo\<close> fails with \<open>err\<close>.
\<close>

datatype Pattr =
    OriginAttribute nat
  | NextHopAttribute string
  | MalformedNextHopAttribute error
  | OtherAttribute

record Path =
  path_Family :: ApiFamily
  Nlri :: IPAddressPrefix
  Pattrs :: "Pattr list"

record Destination =
  Prefix :: string
  Paths :: "Path list"

datatype request =
    StartBgp Global
  | StopBgp
  | AddPeer PeerConf
  | AddDefinedSet DefinedSet
  | AddPolicy Policy bool
  | AddPolicyAssignment PolicyAssignment
  | AddPath Path
  | DeletePath Path

section \<open>Route messages of the kernel (rtnetlink)\<close>

text \<open>
  \<open>net.IP\<close> is a byte slice; the empty list is the \<open>nil\<close> address. A slice that may
  be \<open>nil\<close> (\<open>Multipath\<close>) is an \<open>option\<close>.
\<close>

type_synonym IP = "8 word list"

record NextHop =
  nh_Gateway :: IP

record RouteAttributes =
  Gateway :: IP
  Priority :: "32 word"
  Multipath :: "NextHop list option"

record RouteMessage =
  Family :: "8 word"
  DstLength :: "8 word"
  Table :: "8 word"
  Protocol :: "8 word"
  Scope :: "8 word"
  Type :: "8 word"
  Attributes :: RouteAttributes

text \<open>The zero value \<open>rtnetlink.RouteMessage{}\<close>.\<close>

definition zeroRouteMessage :: RouteMessage where
  "zeroRouteMessage =
     \<lparr>Family = 0, DstLength = 0, Table = 0, Protocol = 0, Scope = 0, Type = 0,
      Attributes = \<lparr>Gateway = [], Priority = 0, Multipath = None\<rparr>\<rparr>"

text \<open>
  A message the kernel answers with: a route message, or one of another type (the type
  assertion \<open>msgs[i].(*rtnetlink.RouteMessage)\<close> fails on it).
\<close>

datatype nl_message = RouteMsg RouteMessage | OtherMsg

text \<open>One call of \<open>conn.Execute(m, family, flags)\<close>.\<close>

record nl_request =
  nl_msg :: RouteMessage
  nl_type :: "16 word"
  nl_flags :: "16 word"

text \<open>Header flags of package \<open>netlink\<close>.\<close>

definition netlink_Request :: "16 word" where "netlink_Request = 0x1"
definition netlink_Acknowledge :: "16 word" where "netlink_Acknowledge = 0x4"
definition netlink_Dump :: "16 word" where "netlink_Dump = 0x300"
definition netlink_Replace :: "16 word" where "netlink_Replace = 0x100"
definition netlink_Create :: "16 word" where "netlink_Create = 0x400"

section \<open>The speaker and its collaborators\<close>

text \<open>
  The speaker holds its configuration and the handles of its two collaborators. The
  BGP engine \<open>s\<close> and the netlink connection \<open>conn\<close> are external: each is given by
  what it answers to a request after the requests made so far. The state threaded
  through the controller is the list of requests made to the engine, and the state
  threaded through the reconciler is the list of requests made to the kernel.
  \<open>linuxRouteMetric\<close> is the route priority the reconciler works with; the sources at
  hand use the field and do not show the assignment that fills it from the
  configuration's \<open>update_fib_metric\<close>.
\<close>

record Speaker =
  config :: Config
  s :: "request list \<Rightarrow> request \<Rightarrow> error option"
  conn :: "nl_request list \<Rightarrow> nl_request \<Rightarrow> error + nl_message list"
  linuxRouteMetric :: "32 word"

text \<open>
  Library functions that the speaker calls and whose results it branches on:
  \<open>anypb.New\<close> on the NLRI (the error, if it fails to pack), \<open>net.IP.String\<close>,
  \<open>net.ParseIP\<close> and \<open>net.IP.To4\<close> (\<open>[]\<close> is \<open>nil\<close>).
\<close>

record libs =
  anypb_New :: "IPAddressPrefix \<Rightarrow> error option"
  IP_String :: "IP \<Rightarrow> string"
  ParseIP :: "string \<Rightarrow> IP"
  To4 :: "IP \<Rightarrow> IP"

section \<open>BGP controller (methods of \<open>Speaker\<close>)\<close>

definition defaultRoute :: string where "defaultRoute = ''default-route''"
definition uplinks :: string where "uplinks = ''uplinks''"
definition defaultRoutePolicy :: string where "defaultRoutePolicy = ''only-default-route''"
definition onlyAnycastIP :: string where "onlyAnycastIP = ''only-anycast-ip''"
definition anycastIP :: string where "anycastIP = ''anycast-ip''"
definition global :: string where "global = ''global''"

text \<open>A request to the engine: its answer, and the request appended to the log.\<close>

definition call :: "Speaker \<Rightarrow> request \<Rightarrow> request list \<Rightarrow> error option \<times> request list" where
  "call sp req log = (s sp log req, log @ [req])"

definition quoted :: "string \<Rightarrow> string" where
  "quoted n = CHR 0x22 # n @ [CHR 0x22]"

definition startBgp :: "Speaker \<Rightarrow> request list \<Rightarrow> error option \<times> request list" where
  "startBgp sp log =
     call sp (StartBgp \<lparr>Asn = ASN (config sp), RouterId = AnycastIP (config sp), ListenPort = - 1\<rparr>) log"

definition stopBgp :: "Speaker \<Rightarrow> request list \<Rightarrow> error option \<times> request list" where
  "stopBgp sp log = call sp StopBgp log"

fun addPeers :: "Speaker \<Rightarrow> Neighbor list \<Rightarrow> request list \<Rightarrow> error option \<times> request list" where
  "addPeers sp [] log = (None, log)"
| "addPeers sp (neighbor # rest) log =
     check (call sp (AddPeer \<lparr>NeighborAddress = Address neighbor, PeerAsn = NeighborASN neighbor\<rparr>) log)
       id (addPeers sp rest)"

definition addNeighbors :: "Speaker \<Rightarrow> request list \<Rightarrow> error option \<times> request list" where
  "addNeighbors sp log = addPeers sp (Neighbors (config sp)) log"

definition BGP_ORIGIN_ATTR_TYPE_IGP :: nat where
  "BGP_ORIGIN_ATTR_TYPE_IGP = 0"

definition anycastPath :: "libs \<Rightarrow> Speaker \<Rightarrow> error + Path" where
  "anycastPath L sp =
     (let nlri = \<lparr>ipp_Prefix = AnycastIP (config sp), PrefixLen = 32\<rparr> in
      case anypb_New L nlri of
        Some err \<Rightarrow> Inl (Errs ''error creating network layer reachability information'' err)
      | None \<Rightarrow>
          Inr \<lparr>path_Family = \<lparr>Afi = Family_AFI_IP, Safi = Family_SAFI_UNICAST\<rparr>,
               Nlri = nlri,
               Pattrs = [OriginAttribute BGP_ORIGIN_ATTR_TYPE_IGP, NextHopAttribute ''0.0.0.0'']\<rparr>)"

definition addPath :: "libs \<Rightarrow> Speaker \<Rightarrow> request list \<Rightarrow> error option \<times> request list" where
  "addPath L sp log =
     (case anycastPath L sp of
        Inl err \<Rightarrow> (Some err, log)
      | Inr path \<Rightarrow> call sp (AddPath path) log)"

definition deletePath :: "libs \<Rightarrow> Speaker \<Rightarrow> request list \<Rightarrow> error option \<times> request list" where
  "deletePath L sp log =
     (case anycastPath L sp of
        Inl err \<Rightarrow> (Some err, log)
      | Inr path \<Rightarrow> call sp (DeletePath path) log)"

definition addDefinedSet :: "Speaker \<Rightarrow> DefinedSet \<Rightarrow> request list \<Rightarrow> error option \<times> request list" where
  "addDefinedSet sp ds log =
     check (call sp (AddDefinedSet ds) log)
       (Wrap (''error creating defined-set '' @ quoted (ds_Name ds))) (\<lambda>log. (None, log))"

definition addPolicyAssignment ::
  "Speaker \<Rightarrow> PolicyAssignment \<Rightarrow> request list \<Rightarrow> error option \<times> request list" where
  "addPolicyAssignment sp a log =
     check (call sp (AddPolicyAssignment a) log)
       (Wrap (''error creating policy assignment '' @ quoted (pa_Name a))) (\<lambda>log. (None, log))"

definition addPolicy :: "Speaker \<Rightarrow> Policy \<Rightarrow> request list \<Rightarrow> error option \<times> request list" where
  "addPolicy sp p log =
     check (call sp (AddPolicy p False) log)
       (Wrap (''failed to add policy '' @ quoted (pol_Name p))) (\<lambda>log. (None, log))"

definition addDefinedSets :: "Speaker \<Rightarrow> request list \<Rightarrow> error option \<times> request list" where
  "addDefinedSets sp log =
     (let prefixSetDefaultRoute =
        \<lparr>ds_DefinedType = DefinedType_PREFIX, ds_Name = defaultRoute,
         ds_Prefixes = [\<lparr>IpPrefix = ''0.0.0.0/0'', MaskLengthMin = 0, MaskLengthMax = 0\<rparr>],
         ds_List = []\<rparr> in
      check (addDefinedSet sp prefixSetDefaultRoute log) id (\<lambda>log.
      let prefixSetAnycastIP =
        \<lparr>ds_DefinedType = DefinedType_PREFIX, ds_Name = anycastIP,
         ds_Prefixes = [\<lparr>IpPrefix = AnycastIP (config sp) @ ''/32'',
                         MaskLengthMin = 32, MaskLengthMax = 32\<rparr>],
         ds_List = []\<rparr> in
      check (addDefinedSet sp prefixSetAnycastIP log) id (\<lambda>log.
      let neighbors = map (\<lambda>n. Address n @ ''/32'') (Neighbors (config sp));
          neighborSet =
            \<lparr>ds_DefinedType = DefinedType_NEIGHBOR, ds_Name = uplinks,
             ds_Prefixes = [], ds_List = neighbors\<rparr> in
      check (addDefinedSet sp neighborSet log) id (\<lambda>log. (None, log)))))"

text \<open>
  The three constructors of policies are methods of the speaker that do not read their
  receiver.
\<close>

definition createDefaultRoutePolicy :: Policy where
  "createDefaultRoutePolicy =
     \<lparr>pol_Name = defaultRoutePolicy,
      Statements =
        [\<lparr>st_Name = ''allow-default-route'',
          st_Conditions =
            \<lparr>PrefixSet = Some \<lparr>ms_Type = MatchSet_ANY, ms_Name = defaultRoute\<rparr>,
             NeighborSet = Some \<lparr>ms_Type = MatchSet_ANY, ms_Name = uplinks\<rparr>,
             RouteType = ROUTE_TYPE_NONE\<rparr>,
          st_RouteAction = RouteAction_ACCEPT\<rparr>]\<rparr>"

definition createAnycastIPPolicy :: Policy where
  "createAnycastIPPolicy =
     \<lparr>pol_Name = onlyAnycastIP,
      Statements =
        [\<lparr>st_Name = ''allow-anycast-ip'',
          st_Conditions =
            \<lparr>PrefixSet = Some \<lparr>ms_Type = MatchSet_ANY, ms_Name = anycastIP\<rparr>,
             NeighborSet = Some \<lparr>ms_Type = MatchSet_ANY, ms_Name = uplinks\<rparr>,
             RouteType = ROUTE_TYPE_NONE\<rparr>,
          st_RouteAction = RouteAction_ACCEPT\<rparr>]\<rparr>"

definition createAnycastIPPolicyImport :: Policy where
  "createAnycastIPPolicyImport =
     \<lparr>pol_Name = onlyAnycastIP,
      Statements =
        [\<lparr>st_Name = ''allow-anycast-ip-igp'',
          st_Conditions =
            \<lparr>PrefixSet = Some \<lparr>ms_Type = MatchSet_ANY, ms_Name = anycastIP\<rparr>,
             NeighborSet = None,
             RouteType = ROUTE_TYPE_LOCAL\<rparr>,
          st_RouteAction = RouteAction_ACCEPT\<rparr>]\<rparr>"

definition setupPolicies :: "Speaker \<Rightarrow> request list \<Rightarrow> error option \<times> request list" where
  "setupPolicies sp log =
     check (addDefinedSets sp log) (Wrap ''addDefinedSets failed'') (\<lambda>log.
     let policyDefaultRoute = createDefaultRoutePolicy in
     check (addPolicy sp policyDefaultRoute log) id (\<lambda>log.
     let policyAnycastIP = createAnycastIPPolicy in
     check (addPolicy sp policyAnycastIP log) id (\<lambda>log.
     let policyImportAnycastIP = createAnycastIPPolicyImport in
     check (addPolicy sp policyImportAnycastIP log) id (\<lambda>log.
     check (addPolicyAssignment sp
              \<lparr>pa_Name = global, Direction = PolicyDirection_IMPORT,
               Policies = [policyDefaultRoute, policyImportAnycastIP],
               DefaultAction = RouteAction_REJECT\<rparr> log) id (\<lambda>log.
     check (addPolicyAssignment sp
              \<lparr>pa_Name = global, Direction = PolicyDirection_EXPORT,
               Policies = [policyAnycastIP],
               DefaultAction = RouteAction_REJECT\<rparr> log) id (\<lambda>log.
     (None, log)))))))"

text \<open>\<open>Speaker.setup\<close> (the name alone is reserved).\<close>

definition setup_speaker :: "libs \<Rightarrow> Speaker \<Rightarrow> request list \<Rightarrow> error option \<times> request list" where
  "setup_speaker L sp log =
     check (startBgp sp log) (Wrap ''error starting bgp'') (\<lambda>log.
     check (setupPolicies sp log) (Wrap ''error creating policies'') (\<lambda>log.
     check (addNeighbors sp log) (Wrap ''error adding neighbors'') (\<lambda>log.
     if HealthCheckURL (config sp) = [] then
       check (addPath L sp log) (Wrap ''error advertising anycast route'') (\<lambda>log. (None, log))
     else (None, log))))"

section \<open>FIB reconciler (internal/speaker/update_fib.go)\<close>

definition familyAfInet :: "8 word" where "familyAfInet = 2"
definition rtTableMain :: "8 word" where "rtTableMain = 254"
definition protoBgp :: "8 word" where "protoBgp = 186"
definition typeUnicast :: "8 word" where "typeUnicast = 1"
definition scopeGlobal :: "8 word" where "scopeGlobal = 0"
definition getRoute :: "16 word" where "getRoute = 0x1a"
definition newRoute :: "16 word" where "newRoute = 0x18"
definition deleteRoute :: "16 word" where "deleteRoute = 0x19"

definition replaceFlags :: "16 word" where
  "replaceFlags = netlink_Request OR netlink_Create OR netlink_Replace OR netlink_Acknowledge"

text \<open>
  Modelled from the spec: the constant \<open>zeroPrefix\<close>, which \<open>setDefaultRoute\<close> compares
  the prefix of a destination with, is declared outside the given sources; the spec
  names the prefix of the default route as \<open>0.0.0.0/0\<close>.
\<close>

definition zeroPrefix :: string where
  "zeroPrefix = ''0.0.0.0/0''"

text \<open>A call of \<open>sp.conn.Execute\<close>: the kernel's answer, and the request appended to the log.\<close>

definition Execute ::
  "Speaker \<Rightarrow> nl_request \<Rightarrow> nl_request list \<Rightarrow> (error + nl_message list) \<times> nl_request list" where
  "Execute sp req log = (conn sp log req, log @ [req])"

text \<open>The error of an \<open>Execute\<close> whose messages are dropped (\<open>_, err = ...\<close>).\<close>

definition Execute_err ::
  "Speaker \<Rightarrow> nl_request \<Rightarrow> nl_request list \<Rightarrow> error option \<times> nl_request list" where
  "Execute_err sp req log =
     (case Execute sp req log of
        (Inl err, log') \<Rightarrow> (Some err, log')
      | (Inr msgs, log') \<Rightarrow> (None, log'))"

definition linuxRouteIsMine :: "Speaker \<Rightarrow> RouteMessage \<Rightarrow> bool" where
  "linuxRouteIsMine sp route \<longleftrightarrow>
     Protocol route = protoBgp \<and>
     DstLength route = 0 \<and>
     Table route = rtTableMain \<and>
     Family route = familyAfInet \<and>
     Type route = typeUnicast \<and>
     Scope route = scopeGlobal \<and>
     Priority (Attributes route) = linuxRouteMetric sp"

text \<open>The loop of \<open>getLinuxBGPDefaultRoute\<close> over the messages of the dump.\<close>

fun firstMine :: "Speaker \<Rightarrow> nl_message list \<Rightarrow> error + RouteMessage option" where
  "firstMine sp [] = Inr None"
| "firstMine sp (OtherMsg # msgs) = Inl (Wrap ''unexpected rtnetlink message'' ErrUnsupported)"
| "firstMine sp (RouteMsg route # msgs) =
     (if linuxRouteIsMine sp route then Inr (Some route) else firstMine sp msgs)"

definition getLinuxBGPDefaultRoute ::
  "Speaker \<Rightarrow> nl_request list \<Rightarrow> (error + RouteMessage option) \<times> nl_request list" where
  "getLinuxBGPDefaultRoute sp log =
     (case Execute sp \<lparr>nl_msg = zeroRouteMessage, nl_type = getRoute,
                       nl_flags = netlink_Request OR netlink_Dump\<rparr> log of
        (Inl err, log') \<Rightarrow> (Inl (Wrap ''failed to get table of routes'' err), log')
      | (Inr msgs, log') \<Rightarrow> (firstMine sp msgs, log'))"

text \<open>\<open>nextHop\<close>: the first attribute that is a \<open>NextHopAttribute\<close> decides.\<close>

fun nextHopOf :: "Pattr list \<Rightarrow> error + string" where
  "nextHopOf [] = Inl (Err ''faild to extract next hop from gobgp api.Path'')"
| "nextHopOf (NextHopAttribute nh # attrs) = Inr nh"
| "nextHopOf (MalformedNextHopAttribute err # attrs) = Inl err"
| "nextHopOf (attr # attrs) = nextHopOf attrs"

definition nextHop :: "Path \<Rightarrow> error + string" where
  "nextHop path = nextHopOf (Pattrs path)"

definition setSinglePathRoute ::
  "libs \<Rightarrow> Speaker \<Rightarrow> Path \<Rightarrow> nl_request list \<Rightarrow> error option \<times> nl_request list" where
  "setSinglePathRoute L sp path log =
     (case nextHop path of
        Inl err \<Rightarrow> (Some (Wrap ''failed to retrieve gateway'' err), log)
      | Inr newGateway \<Rightarrow>
     (case getLinuxBGPDefaultRoute sp log of
        (Inl err, log) \<Rightarrow>
          (Some (Wrap ''setSinglePathRoute: failed to lookup default route'' err), log)
      | (Inr oldDefaultRoute, log) \<Rightarrow>
     if (case oldDefaultRoute of
           None \<Rightarrow> False
         | Some old \<Rightarrow> IP_String L (Gateway (Attributes old)) = newGateway)
     then (None, log)
     else
       let gateway = ParseIP L newGateway in
       if To4 L gateway = [] then (Some (Wrap ''gateway is not ipv4'' ErrUnsupported), log)
       else
         let routeMessage =
           \<lparr>Family = familyAfInet, DstLength = 0, Table = rtTableMain, Protocol = protoBgp,
            Scope = 0, Type = typeUnicast,
            Attributes = \<lparr>Gateway = gateway, Priority = linuxRouteMetric sp, Multipath = None\<rparr>\<rparr>
         in Execute_err sp \<lparr>nl_msg = routeMessage, nl_type = newRoute, nl_flags = replaceFlags\<rparr> log))"

text \<open>
  The first loop of \<open>setMultiPathRoute\<close>. The Go map used as a set of strings is a list
  without duplicates: its length is \<open>len\<close> of the map and membership is the key lookup.
\<close>

fun collectNextHops :: "Path list \<Rightarrow> string list \<Rightarrow> error + string list" where
  "collectNextHops [] newNextHops = Inr newNextHops"
| "collectNextHops (path # paths) newNextHops =
     (case nextHop path of
        Inl err \<Rightarrow> Inl (Wrap ''failed to retrieve gateway'' err)
      | Inr nh \<Rightarrow> collectNextHops paths (List.insert nh newNextHops))"

text \<open>
  The loop over the old multipath entries that computes \<open>routesAreEqual\<close>.
\<close>

definition routesAreEqual :: "libs \<Rightarrow> NextHop list \<Rightarrow> string list \<Rightarrow> bool" where
  "routesAreEqual L oldNextHops newNextHops \<longleftrightarrow>
     list_all (\<lambda>oldNextHop. IP_String L (nh_Gateway oldNextHop) \<in> set newNextHops) oldNextHops"

text \<open>
  The loop that builds the new multipath entries. Go ranges over the map in an
  unspecified order; the order only shows in the order of the entries built, the error
  being the same whichever key is the first that is not IPv4.
\<close>

fun buildNextHops :: "libs \<Rightarrow> string list \<Rightarrow> error + NextHop list" where
  "buildNextHops L [] = Inr []"
| "buildNextHops L (gw # gws) =
     (let gateway = ParseIP L gw in
      if To4 L gateway = [] then Inl (Wrap ''gateway is not ipv4'' ErrUnsupported)
      else (case buildNextHops L gws of
              Inl err \<Rightarrow> Inl err
            | Inr nextHops \<Rightarrow> Inr (\<lparr>nh_Gateway = gateway\<rparr> # nextHops)))"

definition setMultiPathRoute ::
  "libs \<Rightarrow> Speaker \<Rightarrow> Path list \<Rightarrow> nl_request list \<Rightarrow> error option \<times> nl_request list" where
  "setMultiPathRoute L sp paths log =
     (case collectNextHops paths [] of
        Inl err \<Rightarrow> (Some err, log)
      | Inr newNextHops \<Rightarrow>
     (case getLinuxBGPDefaultRoute sp log of
        (Inl err, log) \<Rightarrow>
          (Some (Wrap ''setMultiPathRoute: failed to lookup default route'' err), log)
      | (Inr oldDefaultRoute, log) \<Rightarrow>
     if (case oldDefaultRoute of
           None \<Rightarrow> False
         | Some old \<Rightarrow>
             (case Multipath (Attributes old) of
                None \<Rightarrow> False
              | Some oldNextHops \<Rightarrow>
                  length oldNextHops = length newNextHops \<and>
                  routesAreEqual L oldNextHops newNextHops))
     then (None, log)
     else
       (case buildNextHops L newNextHops of
          Inl err \<Rightarrow> (Some err, log)
        | Inr nextHops \<Rightarrow>
            let routeMessage =
              \<lparr>Family = familyAfInet, DstLength = 0, Table = rtTableMain, Protocol = protoBgp,
               Scope = 0, Type = typeUnicast,
               Attributes = \<lparr>Gateway = [], Priority = linuxRouteMetric sp,
                             Multipath = Some nextHops\<rparr>\<rparr>
            in Execute_err sp \<lparr>nl_msg = routeMessage, nl_type = newRoute, nl_flags = replaceFlags\<rparr> log)))"

text \<open>
  \<open>setDefaultRoute\<close>, one tick of the reconciler. \<open>rib\<close> is what \<open>sp.s.ListPath\<close> does
  on this tick: it fails, or it hands the destinations of the global table to the
  callback one by one.
\<close>

definition setDefaultRoute ::
  "libs \<Rightarrow> Speaker \<Rightarrow> error + Destination list \<Rightarrow> nl_request list \<Rightarrow> error option \<times> nl_request list" where
  "setDefaultRoute L sp rib log =
     (case rib of
        Inl err \<Rightarrow> (Some (Wrap ''bgp list path error'' err), log)
      | Inr destinations \<Rightarrow>
          let defaultRoutes = filter (\<lambda>d. Prefix d = zeroPrefix) destinations in
          if length defaultRoutes = 0 then (None, log)
          else if length defaultRoutes > 1 then
            (Some (Wrap ''unexpeted number of default routes'' ErrUnsupported), log)
          else
            let defaultRoute = defaultRoutes ! 0 in
            if length (Paths defaultRoute) = 1
            then setSinglePathRoute L sp (Paths defaultRoute ! 0) log
            else setMultiPathRoute L sp (Paths defaultRoute) log)"

definition cleanupDefaultRoute :: "Speaker \<Rightarrow> nl_request list \<Rightarrow> error option \<times> nl_request list" where
  "cleanupDefaultRoute sp log =
     (let routeMessage =
        \<lparr>Family = familyAfInet, DstLength = 0, Table = rtTableMain, Protocol = protoBgp,
         Scope = 0, Type = typeUnicast,
         Attributes = \<lparr>Gateway = [], Priority = linuxRouteMetric sp, Multipath = None\<rparr>\<rparr> in
      case getLinuxBGPDefaultRoute sp log of
        (Inl err, log) \<Rightarrow>
          (Some (Wrap ''cleanupDefaultRoute: failed to lookup default route'' err), log)
      | (Inr oldDefaultRoute, log) \<Rightarrow>
          if oldDefaultRoute \<noteq> None then
            check (Execute_err sp \<lparr>nl_msg = routeMessage, nl_type = deleteRoute,
                                   nl_flags = netlink_Request OR netlink_Acknowledge\<rparr> log)
              (Wrap ''bgp default route cleanup from linux failed'') (\<lambda>log. (None, log))
          else (None, log))"

text \<open>
  The loop of \<open>UpdateFIB\<close>: one \<open>setDefaultRoute\<close> per tick, its error logged and
  dropped; the list holds what \<open>ListPath\<close> does on each tick before the context is
  cancelled. On cancellation \<open>UpdateFIB\<close> returns what \<open>cleanupDefaultRoute\<close> returns.
\<close>

fun fib_ticks ::
  "libs \<Rightarrow> Speaker \<Rightarrow> (error + Destination list) list \<Rightarrow> nl_request list \<Rightarrow> nl_request list" where
  "fib_ticks L sp [] log = log"
| "fib_ticks L sp (rib # ribs) log = fib_ticks L sp ribs (snd (setDefaultRoute L sp rib log))"

definition UpdateFIB ::
  "libs \<Rightarrow> Speaker \<Rightarrow> error option \<Rightarrow> (error + Destination list) list \<Rightarrow> nl_request list
     \<Rightarrow> error option \<times> nl_request list" where
  "UpdateFIB L sp dial ribs log =
     (case dial of
        Some err \<Rightarrow> (Some err, log)
      | None \<Rightarrow> cleanupDefaultRoute sp (fib_ticks L sp ribs log))"

text \<open>A request that changes the kernel's routes: a \<open>NEWROUTE\<close> or a \<open>DELROUTE\<close>.\<close>

definition is_mutation :: "nl_request \<Rightarrow> bool" where
  "is_mutation req \<longleftrightarrow> nl_type req = newRoute \<or> nl_type req = deleteRoute"

section \<open>Startup as a sequence of steps\<close>

text \<open>
  The startup order in the words of the specification: the steps run one after the
  other on the state the previous step left; the first step that returns an error ends
  the run, its error is returned wrapped in the message of the step, and no later step
  runs.
\<close>

fun run_steps :: "(string \<times> ('st \<Rightarrow> error option \<times> 'st)) list \<Rightarrow> 'st \<Rightarrow> error option \<times> 'st" where
  "run_steps [] st = (None, st)"
| "run_steps ((msg, step) # steps) st =
     (case step st of
        (Some err, st') \<Rightarrow> (Some (Wrap msg err), st')
      | (None, st') \<Rightarrow> run_steps steps st')"

text \<open>The policies submitted to the engine, in the order of the \<open>AddPolicy\<close> requests.\<close>

fun added_policies :: "request list \<Rightarrow> Policy list" where
  "added_policies [] = []"
| "added_policies (AddPolicy p refer # reqs) = p # added_policies reqs"
| "added_policies (req # reqs) = added_policies reqs"

text \<open>
  The requests that \<open>setupPolicies\<close> and \<open>addNeighbors\<close> are expected to make when the
  engine accepts each of them.
\<close>

definition policy_requests :: "Config \<Rightarrow> request list" where
  "policy_requests c =
     [AddDefinedSet
        \<lparr>ds_DefinedType = DefinedType_PREFIX, ds_Name = ''default-route'',
         ds_Prefixes = [\<lparr>IpPrefix = ''0.0.0.0/0'', MaskLengthMin = 0, MaskLengthMax = 0\<rparr>],
         ds_List = []\<rparr>,
      AddDefinedSet
        \<lparr>ds_DefinedType = DefinedType_PREFIX, ds_Name = ''anycast-ip'',
         ds_Prefixes = [\<lparr>IpPrefix = AnycastIP c @ ''/32'', MaskLengthMin = 32, MaskLengthMax = 32\<rparr>],
         ds_List = []\<rparr>,
      AddDefinedSet
        \<lparr>ds_DefinedType = DefinedType_NEIGHBOR, ds_Name = ''uplinks'',
         ds_Prefixes = [], ds_List = map (\<lambda>n. Address n @ ''/32'') (Neighbors c)\<rparr>,
      AddPolicy createDefaultRoutePolicy False,
      AddPolicy createAnycastIPPolicy False,
      AddPolicy createAnycastIPPolicyImport False,
      AddPolicyAssignment
        \<lparr>pa_Name = ''global'', Direction = PolicyDirection_IMPORT,
         Policies = [createDefaultRoutePolicy, createAnycastIPPolicyImport],
         DefaultAction = RouteAction_REJECT\<rparr>,
      AddPolicyAssignment
        \<lparr>pa_Name = ''global'', Direction = PolicyDirection_EXPORT,
         Policies = [createAnycastIPPolicy],
         DefaultAction = RouteAction_REJECT\<rparr>]"

definition peer_requests :: "Config \<Rightarrow> request list" where
  "peer_requests c =
     map (\<lambda>n. AddPeer \<lparr>NeighborAddress = Address n, PeerAsn = NeighborASN n\<rparr>) (Neighbors c)"

section \<open>Requests of the reconciler\<close>

text \<open>The dump of the kernel's routes that \<open>getLinuxBGPDefaultRoute\<close> asks for.\<close>

definition dumpRequest :: nl_request where
  "dumpRequest = \<lparr>nl_msg = zeroRouteMessage, nl_type = getRoute,
                   nl_flags = netlink_Request OR netlink_Dump\<rparr>"

text \<open>A request is harmless to foreign routes: it is the dump, or its message is an owned route.\<close>

definition owned_or_dump :: "Speaker \<Rightarrow> nl_request \<Rightarrow> bool" where
  "owned_or_dump sp req \<longleftrightarrow> (is_mutation req \<longrightarrow> linuxRouteIsMine sp (nl_msg req))"

section \<open>Invariant of the health check\<close>

definition hc_inv :: "HealthCheck \<Rightarrow> bool" where
  "hc_inv hc \<longleftrightarrow>
     0 \<le> okCounter hc \<and> okCounter hc \<le> healthyThreshold \<and>
     (status hc = Healthy \<longrightarrow> okCounter hc = healthyThreshold)"

section \<open>Concrete inputs\<close>

text \<open>A probe answered with 200 and one answered with 500; the callback, if invoked, succeeds.\<close>

definition tick_ok :: tick where
  "tick_ok = \<lparr>http = Inr \<lparr>StatusCode = 200, BodyCopy = None\<rparr>, cb = None\<rparr>"

definition tick_fail :: tick where
  "tick_fail = \<lparr>http = Inr \<lparr>StatusCode = 500, BodyCopy = None\<rparr>, cb = None\<rparr>"

definition hc_new :: HealthCheck where
  "hc_new = \<lparr>status = Unhealthy, u = ''http://127.0.0.1:8080/healthz'', okCounter = 0\<rparr>"

text \<open>
  The configuration of the specification's example, with the health check disabled; an
  engine that accepts every request, and one that rejects every peer.
\<close>

definition cfg_demo :: Config where
  "cfg_demo =
     \<lparr>AnycastIP = ''10.0.0.1'', ASN = 65001,
      Neighbors = [\<lparr>Address = ''10.1.0.1'', NeighborASN = 65000\<rparr>,
                   \<lparr>Address = ''10.2.0.1'', NeighborASN = 65000\<rparr>],
      HealthCheckURL = [], UpdateFIBMetric = Some 170\<rparr>"

definition sp_demo :: Speaker where
  "sp_demo = \<lparr>config = cfg_demo, s = (\<lambda>log req. None), conn = (\<lambda>log req. Inr []),
              linuxRouteMetric = 170\<rparr>"

definition sp_peer_rejected :: Speaker where
  "sp_peer_rejected =
     sp_demo\<lparr>s := \<lambda>log req. (case req of AddPeer p \<Rightarrow> Some (Err ''peer rejected'') | _ \<Rightarrow> None)\<rparr>"

text \<open>
  The library functions on the addresses used here: \<open>ParseIP\<close> yields the 16-byte form
  of an IPv4 address, \<open>To4\<close> its 4-byte form, and \<open>String\<close> renders both forms alike.
\<close>

definition To4_demo :: "IP \<Rightarrow> IP" where
  "To4_demo ip =
     (if length ip = 4 then ip
      else if length ip = 16 \<and> take 12 ip = [0, 0, 0, 0, 0, 0, 0, 0, 0, 0, 0xff, 0xff]
      then drop 12 ip else [])"

definition L_demo :: libs where
  "L_demo =
     \<lparr>anypb_New = (\<lambda>nlri. None),
      IP_String = (\<lambda>ip. if ip = [] then ''<nil>''
                         else if To4_demo ip = [10, 1, 0, 1] then ''10.1.0.1''
                         else if To4_demo ip = [10, 2, 0, 1] then ''10.2.0.1''
                         else if To4_demo ip = [192, 168, 0, 1] then ''192.168.0.1''
                         else ''?''),
      ParseIP = (\<lambda>str. if str = ''10.1.0.1''
                        then [0, 0, 0, 0, 0, 0, 0, 0, 0, 0, 0xff, 0xff, 10, 1, 0, 1]
                        else if str = ''10.2.0.1''
                        then [0, 0, 0, 0, 0, 0, 0, 0, 0, 0, 0xff, 0xff, 10, 2, 0, 1]
                        else []),
      To4 = To4_demo\<rparr>"

text \<open>
  Kernel routing tables: a default route of another protocol, then the speaker's own
  route, single-path or multipath. Destinations of the RIB with one and with two paths.
\<close>

definition route_other :: RouteMessage where
  "route_other =
     \<lparr>Family = 2, DstLength = 0, Table = 254, Protocol = 16, Scope = 0, Type = 1,
      Attributes = \<lparr>Gateway = [192, 168, 0, 1], Priority = 100, Multipath = None\<rparr>\<rparr>"

definition route_single :: RouteMessage where
  "route_single =
     \<lparr>Family = 2, DstLength = 0, Table = 254, Protocol = 186, Scope = 0, Type = 1,
      Attributes = \<lparr>Gateway = [10, 1, 0, 1], Priority = 170, Multipath = None\<rparr>\<rparr>"

definition route_multi :: RouteMessage where
  "route_multi =
     \<lparr>Family = 2, DstLength = 0, Table = 254, Protocol = 186, Scope = 0, Type = 1,
      Attributes = \<lparr>Gateway = [], Priority = 170,
                    Multipath = Some [\<lparr>nh_Gateway = [10, 2, 0, 1]\<rparr>, \<lparr>nh_Gateway = [10, 1, 0, 1]\<rparr>]\<rparr>\<rparr>"

definition sp_single :: Speaker where
  "sp_single =
     sp_demo\<lparr>conn := \<lambda>log req. if nl_type req = getRoute
                          then Inr [RouteMsg route_other, RouteMsg route_single] else Inr []\<rparr>"

definition sp_multi :: Speaker where
  "sp_multi =
     sp_demo\<lparr>conn := \<lambda>log req. if nl_type req = getRoute
                          then Inr [RouteMsg route_other, RouteMsg route_multi] else Inr []\<rparr>"

definition path_via :: "string \<Rightarrow> Path" where
  "path_via nh =
     \<lparr>path_Family = \<lparr>Afi = Family_AFI_IP, Safi = Family_SAFI_UNICAST\<rparr>,
      Nlri = \<lparr>ipp_Prefix = ''0.0.0.0'', PrefixLen = 0\<rparr>,
      Pattrs = [OriginAttribute 0, NextHopAttribute nh]\<rparr>"

definition dest_single :: Destination where
  "dest_single = \<lparr>Prefix = ''0.0.0.0/0'', Paths = [path_via ''10.1.0.1'']\<rparr>"

definition dest_multi :: Destination where
  "dest_multi = \<lparr>Prefix = ''0.0.0.0/0'', Paths = [path_via ''10.1.0.1'', path_via ''10.2.0.1'']\<rparr>"

definition dest_other :: Destination where
  "dest_other = \<lparr>Prefix = ''10.0.0.1/32'', Paths = [path_via ''0.0.0.0'']\<rparr>"

section \<open>Health checker: properties\<close>

lemma ticks_loop_Cons_fst:
  "fst (ticks_loop hc (t # ts)) = fst (ticks_loop (fst (on_tick hc t)) ts)"
  by (simp split: prod.splits)

lemma ticks_loop_Cons_snd:
  "snd (ticks_loop hc (t # ts)) = snd (on_tick hc t) # snd (ticks_loop (fst (on_tick hc t)) ts)"
  by (simp split: prod.splits)

lemma on_tick_inv: "hc_inv hc \<Longrightarrow> hc_inv (fst (on_tick hc t))"
  by (auto simp add: hc_inv_def on_tick_def Let_def healthyThreshold_def split: option.splits)

lemma ticks_loop_inv: "hc_inv hc \<Longrightarrow> hc_inv (fst (ticks_loop hc ts))"
proof (induction ts arbitrary: hc)
  case Nil
  then show ?case by simp
next
  case (Cons t ts)
  from Cons.IH [OF on_tick_inv [OF Cons.prems, of t]] show ?case
    by (simp only: ticks_loop_Cons_fst)
qed

lemma Run_inv: "hc_inv hc \<Longrightarrow> hc_inv (fst (Run hc ts))"
  by (simp add: Run_def ticks_loop_inv)

lemma NewHealthCheck_inv: "NewHealthCheck (Inr url) = Inr hc0 \<Longrightarrow> hc_inv hc0"
  by (auto simp: NewHealthCheck_def hc_inv_def healthyThreshold_def)

lemma take_Cons_replicate: "take n (x # replicate n x) = replicate n x"
  by (induction n) simp_all

lemma take_append_replicate:
  "n \<le> length xs + m \<Longrightarrow> n \<le> length xs + m' \<Longrightarrow>
   take n (xs @ replicate m x) = take n (xs @ replicate m' x)"
  by (auto simp add: min_def)

text \<open>Once healthy, successful probes change nothing and invoke nothing.\<close>

lemma healthy_ok_loop:
  assumes "status hc = Healthy" and "\<forall>t\<in>set ts. Do (http t) = None"
  shows "ticks_loop hc ts = (hc, replicate (length ts) None)"
  using assms
proof (induction ts)
  case Nil
  then show ?case by simp
next
  case (Cons t ts)
  then have "on_tick hc t = (hc, None)"
    by (simp add: on_tick_def)
  with Cons show ?case by simp
qed

text \<open>
  While unhealthy with the counter \<open>j\<close> short of the threshold, successful probes with a
  succeeding callback invoke nothing for \<open>j\<close> ticks, then \<open>cbHealthy\<close> once.
\<close>

lemma unhealthy_ok_loop:
  assumes "status hc = Unhealthy" and "okCounter hc = 3 - int j" and "j \<le> 3"
    and "\<forall>t\<in>set ts. Do (http t) = None \<and> cb t = None"
  shows "snd (ticks_loop hc ts) =
           take (length ts) (replicate j None @ Some CbHealthy # replicate (length ts) None)"
  using assms
proof (induction ts arbitrary: hc j)
  case Nil
  then show ?case by simp
next
  case (Cons t ts)
  have ok: "Do (http t) = None" "cb t = None"
    and rest: "\<forall>t\<in>set ts. Do (http t) = None \<and> cb t = None"
    using Cons.prems(4) by simp_all
  show ?case
  proof (cases j)
    case 0
    then have step: "on_tick hc t = (hc\<lparr>status := Healthy\<rparr>, Some CbHealthy)"
      using Cons.prems(1,2) ok by (simp add: on_tick_def healthyThreshold_def)
    have "ticks_loop (hc\<lparr>status := Healthy\<rparr>) ts =
            (hc\<lparr>status := Healthy\<rparr>, replicate (length ts) None)"
      by (rule healthy_ok_loop) (use rest in simp_all)
    with step 0 show ?thesis by (simp add: take_Cons_replicate)
  next
    case (Suc j')
    then have step: "on_tick hc t = (hc\<lparr>okCounter := okCounter hc + 1\<rparr>, None)"
      using Cons.prems(1,2,3) ok by (simp add: on_tick_def healthyThreshold_def)
    have "snd (ticks_loop (hc\<lparr>okCounter := okCounter hc + 1\<rparr>) ts) =
            take (length ts) (replicate j' None @ Some CbHealthy # replicate (length ts) None)"
      by (rule Cons.IH) (use Cons.prems Suc rest in simp_all)
    then have "snd (ticks_loop hc (t # ts)) =
            None # take (length ts) (replicate j' None @ Some CbHealthy # replicate (length ts) None)"
      by (simp only: ticks_loop_Cons_snd step fst_conv snd_conv)
    also have "\<dots> = take (length (t # ts))
                  (replicate j None @ Some CbHealthy # replicate (length (t # ts)) None)"
      using take_append_replicate [of "Suc (length ts)" "None # replicate j' None @ [Some CbHealthy]"
          "length ts" "Suc (length ts)" None]
      unfolding Suc by simp
    finally show ?thesis .
  qed
qed

text \<open>The per-tick law of \<open>cbHealthy\<close> and of the counter, for every state and tick.\<close>

lemma cbHealthy_iff:
  "snd (on_tick hc t) = Some CbHealthy \<longleftrightarrow>
     Do (http t) = None \<and> status hc = Unhealthy \<and> 3 \<le> okCounter hc"
  by (auto simp: on_tick_def Let_def healthyThreshold_def split: option.splits)

lemma unhealthy_success_tick:
  "Do (http t) = None \<Longrightarrow> status hc = Unhealthy \<Longrightarrow>
   fst (on_tick hc t) =
     (if okCounter hc < 3 then hc\<lparr>okCounter := okCounter hc + 1\<rparr>
      else if cb t = None then hc\<lparr>status := Healthy\<rparr> else hc)"
  by (auto simp: on_tick_def Let_def healthyThreshold_def split: option.splits)

lemma no_cbHealthy_early:
  "status hc = Unhealthy \<Longrightarrow> okCounter hc + int n \<le> 3 \<Longrightarrow>
   Some CbHealthy \<notin> set (take n (snd (ticks_loop hc ts)))"
proof (induction ts arbitrary: hc n)
  case Nil
  then show ?case by simp
next
  case (Cons t ts)
  show ?case
  proof (cases n)
    case 0
    then show ?thesis by simp
  next
    case (Suc m)
    with Cons.prems have below: "okCounter hc < 3" by simp
    have none: "snd (on_tick hc t) = None"
      using Cons.prems(1) below
      by (auto simp: on_tick_def Let_def healthyThreshold_def split: option.splits)
    have st: "status (fst (on_tick hc t)) = Unhealthy"
      using Cons.prems(1) below
      by (auto simp: on_tick_def Let_def healthyThreshold_def split: option.splits)
    have cnt: "okCounter (fst (on_tick hc t)) + int m \<le> 3"
      using Cons.prems Suc below
      by (auto simp: on_tick_def Let_def healthyThreshold_def split: option.splits)
    have "snd (ticks_loop hc (t # ts)) = None # snd (ticks_loop (fst (on_tick hc t)) ts)"
      by (simp only: ticks_loop_Cons_snd none)
    with Cons.IH [OF st cnt] show ?thesis
      by (simp add: Suc)
  qed
qed

text \<open>
  C1 (as amended). For every state and tick, \<open>cbHealthy\<close> is invoked exactly on a tick
  whose probe succeeds in status Unhealthy with the counter already at the threshold
  (\<open>okCounter \<ge> 3\<close>); a successful probe in status Unhealthy increments the counter
  only while it is below 3, and otherwise leaves it and, if the callback succeeds,
  turns the status to Healthy. From a freshly constructed health check no run, whatever
  the probes and callbacks return, invokes \<open>cbHealthy\<close> within its first three ticks.
  With a non-empty URL, under a run of successful probes whose callback succeeds, the
  first three ticks only count, \<open>cbHealthy\<close> is invoked on the tick of the 4th
  success, and no callback is invoked after it: the callbacks of the ticks are the
  first \<open>length ts\<close> entries of \<open>None, None, None, cbHealthy, None, None, ...\<close>.
\<close>

theorem cbHealthy_on_fourth_success:
  "(snd (on_tick hc t) = Some CbHealthy \<longleftrightarrow>
      Do (http t) = None \<and> status hc = Unhealthy \<and> 3 \<le> okCounter hc) \<and>
   (Do (http t) = None \<and> status hc = Unhealthy \<longrightarrow>
      fst (on_tick hc t) =
        (if okCounter hc < 3 then hc\<lparr>okCounter := okCounter hc + 1\<rparr>
         else if cb t = None then hc\<lparr>status := Healthy\<rparr> else hc)) \<and>
   (NewHealthCheck (Inr url) = Inr hc0 \<longrightarrow>
      Some CbHealthy \<notin> set (take 3 (snd (Run hc0 ts)))) \<and>
   (NewHealthCheck (Inr url) = Inr hc0 \<and> url \<noteq> [] \<and>
    (\<forall>t\<in>set ts. Do (http t) = None \<and> cb t = None) \<longrightarrow>
      snd (Run hc0 ts) =
        take (length ts) ([None, None, None, Some CbHealthy] @ replicate (length ts) None))"
proof -
  have early: "Some CbHealthy \<notin> set (take 3 (snd (Run hc0 ts)))"
    if new: "NewHealthCheck (Inr url) = Inr hc0"
  proof -
    from new have hc0: "hc0 = \<lparr>status = Unhealthy, u = url, okCounter = 0\<rparr>"
      by (simp add: NewHealthCheck_def)
    have "Some CbHealthy \<notin> set (take 3 (snd (ticks_loop hc0 ts)))"
      by (rule no_cbHealthy_early) (simp_all add: hc0)
    then show ?thesis by (simp add: Run_def)
  qed
  have run: "snd (Run hc0 ts) =
        take (length ts) ([None, None, None, Some CbHealthy] @ replicate (length ts) None)"
    if new: "NewHealthCheck (Inr url) = Inr hc0" and url: "url \<noteq> []"
      and ok: "\<forall>t\<in>set ts. Do (http t) = None \<and> cb t = None"
  proof -
    from new have hc0: "hc0 = \<lparr>status = Unhealthy, u = url, okCounter = 0\<rparr>"
      by (simp add: NewHealthCheck_def)
    have "snd (ticks_loop hc0 ts) =
            take (length ts) (replicate 3 None @ Some CbHealthy # replicate (length ts) None)"
      by (rule unhealthy_ok_loop) (use ok in \<open>simp_all add: hc0\<close>)
    then show ?thesis using url
      by (simp add: Run_def hc0 numeral_3_eq_3)
  qed
  from cbHealthy_iff [of hc t] unhealthy_success_tick [of t hc] early run
  show ?thesis by blast
qed

theorem cbHealthy_on_fourth_success_witness:
  "NewHealthCheck (Inr ''http://127.0.0.1:8080/healthz'') = Inr hc_new \<and>
   ''http://127.0.0.1:8080/healthz'' \<noteq> [] \<and>
   Do (http tick_ok) = None \<and> cb tick_ok = None \<and>
   snd (Run hc_new [tick_ok, tick_ok, tick_ok, tick_ok, tick_ok]) =
     [None, None, None, Some CbHealthy, None] \<and>
   Do (http tick_ok) = None \<and> status (hc_new\<lparr>okCounter := 3\<rparr>) = Unhealthy \<and>
   fst (on_tick (hc_new\<lparr>okCounter := 3\<rparr>) tick_ok) = hc_new\<lparr>status := Healthy, okCounter := 3\<rparr> \<and>
   snd (on_tick (hc_new\<lparr>okCounter := 3\<rparr>) tick_ok) = Some CbHealthy \<and>
   snd (on_tick (hc_new\<lparr>okCounter := 2\<rparr>) tick_ok) \<noteq> Some CbHealthy \<and>
   snd (on_tick (hc_new\<lparr>okCounter := 3\<rparr>) tick_fail) \<noteq> Some CbHealthy"
  using cbHealthy_on_fourth_success [of "hc_new\<lparr>okCounter := 3\<rparr>" tick_ok "''http://127.0.0.1:8080/healthz''" hc_new
        "[tick_ok, tick_ok, tick_ok, tick_ok, tick_ok]"]
    cbHealthy_on_fourth_success [of "hc_new\<lparr>okCounter := 2\<rparr>" tick_ok "''http://127.0.0.1:8080/healthz''" hc_new "[]"]
    cbHealthy_on_fourth_success [of "hc_new\<lparr>okCounter := 3\<rparr>" tick_fail "''http://127.0.0.1:8080/healthz''" hc_new "[]"]
  by (simp add: NewHealthCheck_def hc_new_def tick_ok_def tick_fail_def Do_def)

text \<open>
  C1, counterexample. After three consecutive successful probes no callback has been
  invoked: the tick of the 3rd success only brings the counter to 3.
\<close>

theorem cbHealthy_not_on_third_success:
  "snd (Run hc_new [tick_ok, tick_ok, tick_ok]) = [None, None, None] \<and>
   fst (Run hc_new [tick_ok, tick_ok, tick_ok]) = hc_new\<lparr>okCounter := 3\<rparr>"
  by (simp add: Run_def hc_new_def tick_ok_def on_tick_def Do_def healthyThreshold_def)

text \<open>
  C2 (as amended). In every state reached from a freshly constructed health check, a
  counter below 3 implies status Unhealthy; equivalently, in status Healthy the counter
  is exactly 3.
\<close>

theorem counter_below_threshold_unhealthy:
  assumes "NewHealthCheck (Inr url) = Inr hc0"
  shows "(okCounter (fst (Run hc0 ts)) < 3 \<longrightarrow> status (fst (Run hc0 ts)) = Unhealthy) \<and>
         (status (fst (Run hc0 ts)) = Healthy \<longrightarrow> okCounter (fst (Run hc0 ts)) = 3)"
proof -
  have "hc_inv (fst (Run hc0 ts))"
    using assms by (intro Run_inv NewHealthCheck_inv)
  then show ?thesis
    by (cases "status (fst (Run hc0 ts))") (auto simp: hc_inv_def healthyThreshold_def)
qed

theorem counter_below_threshold_unhealthy_witness:
  "NewHealthCheck (Inr ''http://127.0.0.1:8080/healthz'') = Inr hc_new \<and>
   okCounter (fst (Run hc_new [tick_ok, tick_ok, tick_fail])) < 3 \<and>
   status (fst (Run hc_new [tick_ok, tick_ok, tick_fail])) = Unhealthy"
  using counter_below_threshold_unhealthy
    [of "''http://127.0.0.1:8080/healthz''" hc_new "[tick_ok, tick_ok, tick_fail]"]
  by (simp add: NewHealthCheck_def hc_new_def Run_def tick_ok_def tick_fail_def on_tick_def Do_def
      healthyThreshold_def)

text \<open>
  C2, counterexample. After four consecutive successful probes the status is Healthy
  and the counter is 3, which is positive.
\<close>

theorem healthy_with_positive_counter:
  "okCounter (fst (Run hc_new [tick_ok, tick_ok, tick_ok, tick_ok])) > 0 \<and>
   status (fst (Run hc_new [tick_ok, tick_ok, tick_ok, tick_ok])) = Healthy"
  by (simp add: Run_def hc_new_def tick_ok_def on_tick_def Do_def healthyThreshold_def)

text \<open>
  C4 (as amended). On a tick whose probe fails, the counter is reset to 0 exactly when
  the status is Healthy and the \<open>cbUnhealthy\<close> callback succeeds, which is the
  Healthy-to-Unhealthy transition; on every other failure tick (status Unhealthy, or
  the callback fails) the counter and the status are unchanged.
\<close>

theorem failure_tick_counter:
  assumes "Do (http t) \<noteq> None"
  shows "fst (on_tick hc t) =
           (if status hc = Healthy \<and> cb t = None
            then hc\<lparr>status := Unhealthy, okCounter := 0\<rparr> else hc)"
  using assms by (auto simp: on_tick_def Let_def split: option.splits)

theorem failure_tick_counter_witness:
  "Do (http tick_fail) \<noteq> None \<and>
   fst (on_tick (hc_new\<lparr>status := Healthy, okCounter := 3\<rparr>) tick_fail) = hc_new"
  using failure_tick_counter [of tick_fail "hc_new\<lparr>status := Healthy, okCounter := 3\<rparr>"]
  by (simp add: tick_fail_def Do_def hc_new_def)

text \<open>
  C4, counterexample. Two successful probes bring the counter to 2 in status Unhealthy;
  a failed probe on the next tick leaves it at 2.
\<close>

theorem failure_tick_keeps_counter:
  "Do (http tick_fail) \<noteq> None \<and>
   fst (Run hc_new [tick_ok, tick_ok]) = hc_new\<lparr>okCounter := 2\<rparr> \<and>
   fst (Run hc_new [tick_ok, tick_ok, tick_fail]) = hc_new\<lparr>okCounter := 2\<rparr>"
  by (simp add: Run_def hc_new_def tick_ok_def tick_fail_def on_tick_def Do_def healthyThreshold_def)

text \<open>
  C9. \<open>Do\<close> returns \<open>nil\<close> if and only if the HTTP transport succeeds, the body is read
  without error and the status code is 200; in every other case it returns an error.
\<close>

theorem Do_nil_iff:
  "(Do r = None \<longleftrightarrow> (\<exists>resp. r = Inr resp \<and> BodyCopy resp = None \<and> StatusCode resp = 200)) \<and>
   (Do r \<noteq> None \<longleftrightarrow> (\<exists>err. r = Inl err) \<or>
      (\<exists>resp. r = Inr resp \<and> (BodyCopy resp \<noteq> None \<or> StatusCode resp \<noteq> 200)))"
  by (auto simp: Do_def split: sum.splits option.splits)

theorem Do_nil_iff_witness:
  "Do (Inr \<lparr>StatusCode = 200, BodyCopy = None\<rparr>) = None \<and>
   Do (Inr \<lparr>StatusCode = 204, BodyCopy = None\<rparr>) \<noteq> None \<and>
   Do (Inr \<lparr>StatusCode = 200, BodyCopy = Some (Err ''unexpected EOF'')\<rparr>) \<noteq> None \<and>
   Do (Inl (Err ''context deadline exceeded'')) \<noteq> None"
  using Do_nil_iff [of "Inr \<lparr>StatusCode = 200, BodyCopy = None\<rparr>"]
    Do_nil_iff [of "Inr \<lparr>StatusCode = 204, BodyCopy = None\<rparr>"]
    Do_nil_iff [of "Inr \<lparr>StatusCode = 200, BodyCopy = Some (Err ''unexpected EOF'')\<rparr>"]
    Do_nil_iff [of "Inl (Err ''context deadline exceeded'')"]
  by simp

text \<open>
  C10. In every state the health-check loop reaches from a freshly constructed health
  check, whatever the probes and callbacks return, \<open>0 \<le> okCounter \<le> 3\<close>; a tick
  raises a non-negative counter only when it is below 3, and then by one.
\<close>

theorem okCounter_bounded:
  assumes "NewHealthCheck (Inr url) = Inr hc0"
  shows "0 \<le> okCounter (fst (Run hc0 ts)) \<and> okCounter (fst (Run hc0 ts)) \<le> 3 \<and>
         (0 \<le> okCounter hc \<and> okCounter hc < okCounter (fst (on_tick hc t)) \<longrightarrow>
            okCounter hc < 3 \<and> okCounter (fst (on_tick hc t)) = okCounter hc + 1)"
proof -
  have "hc_inv (fst (Run hc0 ts))"
    using assms by (intro Run_inv NewHealthCheck_inv)
  then have "0 \<le> okCounter (fst (Run hc0 ts)) \<and> okCounter (fst (Run hc0 ts)) \<le> 3"
    by (simp add: hc_inv_def healthyThreshold_def)
  moreover have "0 \<le> okCounter hc \<and> okCounter hc < okCounter (fst (on_tick hc t)) \<longrightarrow>
            okCounter hc < 3 \<and> okCounter (fst (on_tick hc t)) = okCounter hc + 1"
    by (auto simp: on_tick_def Let_def healthyThreshold_def split: option.splits if_splits)
  ultimately show ?thesis by simp
qed

theorem okCounter_bounded_witness:
  "NewHealthCheck (Inr ''http://127.0.0.1:8080/healthz'') = Inr hc_new \<and>
   okCounter (fst (Run hc_new [tick_ok, tick_ok, tick_ok, tick_ok, tick_ok])) = 3 \<and>
   0 \<le> okCounter hc_new \<and> okCounter hc_new < okCounter (fst (on_tick hc_new tick_ok)) \<and>
   okCounter (fst (on_tick hc_new tick_ok)) = okCounter hc_new + 1"
  using okCounter_bounded
    [of "''http://127.0.0.1:8080/healthz''" hc_new "[tick_ok, tick_ok, tick_ok, tick_ok, tick_ok]"
        hc_new tick_ok]
  by (simp add: NewHealthCheck_def hc_new_def Run_def tick_ok_def on_tick_def Do_def
      healthyThreshold_def)

section \<open>BGP controller: properties\<close>

lemma setupPolicies_accepting:
  "(\<forall>log req. s sp log req = None) \<Longrightarrow>
   setupPolicies sp log = (None, log @ policy_requests (config sp))"
  by (simp add: setupPolicies_def addDefinedSets_def addDefinedSet_def addPolicy_def
      addPolicyAssignment_def check_def call_def Let_def policy_requests_def
      defaultRoute_def anycastIP_def uplinks_def global_def)

lemma addPeers_accepting:
  "(\<forall>log req. s sp log req = None) \<Longrightarrow>
   addPeers sp ns log =
     (None, log @ map (\<lambda>n. AddPeer \<lparr>NeighborAddress = Address n, PeerAsn = NeighborASN n\<rparr>) ns)"
  by (induction ns arbitrary: log) (simp_all add: check_def call_def)

text \<open>
  C3. What the code does where the claim expects two distinct names: the
  export-direction and the import-direction anycast policies are both built under the
  one name \<open>only-anycast-ip\<close>, which is neither \<open>only-anycast-ip-import\<close> nor
  \<open>only-anycast-ip-export\<close>; they differ in their single statement
  (\<open>allow-anycast-ip\<close> and \<open>allow-anycast-ip-igp\<close>). When the engine accepts every
  request, the three policies that \<open>setupPolicies\<close> submits carry two distinct names
  only, \<open>only-default-route\<close> and \<open>only-anycast-ip\<close>.
\<close>

theorem anycast_policies_share_name:
  "pol_Name createDefaultRoutePolicy = ''only-default-route'' \<and>
   pol_Name createAnycastIPPolicy = ''only-anycast-ip'' \<and>
   pol_Name createAnycastIPPolicyImport = ''only-anycast-ip'' \<and>
   pol_Name createAnycastIPPolicyImport = pol_Name createAnycastIPPolicy \<and>
   pol_Name createAnycastIPPolicyImport \<noteq> ''only-anycast-ip-import'' \<and>
   pol_Name createAnycastIPPolicy \<noteq> ''only-anycast-ip-export'' \<and>
   map st_Name (Statements createAnycastIPPolicy) = [''allow-anycast-ip''] \<and>
   map st_Name (Statements createAnycastIPPolicyImport) = [''allow-anycast-ip-igp''] \<and>
   ((\<forall>log req. s sp log req = None) \<longrightarrow>
      added_policies (snd (setupPolicies sp [])) =
        [createDefaultRoutePolicy, createAnycastIPPolicy, createAnycastIPPolicyImport] \<and>
      map pol_Name (added_policies (snd (setupPolicies sp []))) =
        [''only-default-route'', ''only-anycast-ip'', ''only-anycast-ip''] \<and>
      card (set (map pol_Name (added_policies (snd (setupPolicies sp []))))) = 2)"
proof -
  have names: "pol_Name createAnycastIPPolicy = ''only-anycast-ip''"
    "pol_Name createAnycastIPPolicyImport = ''only-anycast-ip''"
    "pol_Name createDefaultRoutePolicy = ''only-default-route''"
    by (simp_all add: createAnycastIPPolicy_def createAnycastIPPolicyImport_def
        createDefaultRoutePolicy_def onlyAnycastIP_def defaultRoutePolicy_def)
  have stmts: "map st_Name (Statements createAnycastIPPolicy) = [''allow-anycast-ip'']"
    "map st_Name (Statements createAnycastIPPolicyImport) = [''allow-anycast-ip-igp'']"
    by (simp_all add: createAnycastIPPolicy_def createAnycastIPPolicyImport_def)
  have added: "added_policies (snd (setupPolicies sp [])) =
        [createDefaultRoutePolicy, createAnycastIPPolicy, createAnycastIPPolicyImport]"
    if "\<forall>log req. s sp log req = None"
    using setupPolicies_accepting [OF that, of "[]"] by (simp add: policy_requests_def)
  have "card (set [''only-default-route'', ''only-anycast-ip'', ''only-anycast-ip'']) = 2"
    by simp
  with names stmts added show ?thesis by simp
qed

theorem anycast_policies_share_name_witness:
  "map pol_Name (added_policies (snd (setupPolicies sp_demo []))) =
        [''only-default-route'', ''only-anycast-ip'', ''only-anycast-ip'']"
  using anycast_policies_share_name [of sp_demo] by (simp add: sp_demo_def)

text \<open>
  C8. \<open>Speaker.setup\<close> runs, in this order, \<open>startBgp\<close>, \<open>setupPolicies\<close>,
  \<open>addNeighbors\<close> and, only if the health-check URL is empty, \<open>addPath\<close>; the first
  step that returns an error ends it, with that error wrapped and the engine left as
  that step left it, so that no later step runs. When the engine accepts every request
  the requests it receives are the start request, the policy requests, one request per
  neighbor and, only if the URL is empty, the anycast path, in this order.
\<close>

theorem setup_order:
  "setup_speaker L sp log =
     run_steps
       ([(''error starting bgp'', startBgp sp),
         (''error creating policies'', setupPolicies sp),
         (''error adding neighbors'', addNeighbors sp)] @
        (if HealthCheckURL (config sp) = []
         then [(''error advertising anycast route'', addPath L sp)] else [])) log \<and>
   ((\<forall>log req. s sp log req = None) \<and> anycastPath L sp = Inr path \<longrightarrow>
      setup_speaker L sp log =
        (None,
         log @ [StartBgp \<lparr>Asn = ASN (config sp), RouterId = AnycastIP (config sp), ListenPort = - 1\<rparr>] @
           policy_requests (config sp) @ peer_requests (config sp) @
           (if HealthCheckURL (config sp) = [] then [AddPath path] else [])))"
proof -
  have steps: "setup_speaker L sp log =
     run_steps
       ([(''error starting bgp'', startBgp sp),
         (''error creating policies'', setupPolicies sp),
         (''error adding neighbors'', addNeighbors sp)] @
        (if HealthCheckURL (config sp) = []
         then [(''error advertising anycast route'', addPath L sp)] else [])) log"
    by (simp add: setup_speaker_def check_def split: prod.splits option.splits)
  have "setup_speaker L sp log =
        (None,
         log @ [StartBgp \<lparr>Asn = ASN (config sp), RouterId = AnycastIP (config sp), ListenPort = - 1\<rparr>] @
           policy_requests (config sp) @ peer_requests (config sp) @
           (if HealthCheckURL (config sp) = [] then [AddPath path] else []))"
    if acc: "\<forall>log req. s sp log req = None" and path: "anycastPath L sp = Inr path"
    using acc
    by (simp add: setup_speaker_def check_def startBgp_def call_def setupPolicies_accepting
        addNeighbors_def addPeers_accepting addPath_def path peer_requests_def)
  with steps show ?thesis by blast
qed

theorem setup_order_witness:
  "setup_speaker L_demo sp_peer_rejected [] =
     (Some (Wrap ''error adding neighbors'' (Err ''peer rejected'')),
      [StartBgp \<lparr>Asn = 65001, RouterId = ''10.0.0.1'', ListenPort = - 1\<rparr>] @
      policy_requests cfg_demo @
      [AddPeer \<lparr>NeighborAddress = ''10.1.0.1'', PeerAsn = 65000\<rparr>]) \<and>
   anycastPath L_demo sp_demo =
     Inr \<lparr>path_Family = \<lparr>Afi = Family_AFI_IP, Safi = Family_SAFI_UNICAST\<rparr>,
          Nlri = \<lparr>ipp_Prefix = ''10.0.0.1'', PrefixLen = 32\<rparr>,
          Pattrs = [OriginAttribute 0, NextHopAttribute ''0.0.0.0'']\<rparr> \<and>
   setup_speaker L_demo sp_demo [] =
     (None,
      [StartBgp \<lparr>Asn = 65001, RouterId = ''10.0.0.1'', ListenPort = - 1\<rparr>] @
      policy_requests cfg_demo @
      [AddPeer \<lparr>NeighborAddress = ''10.1.0.1'', PeerAsn = 65000\<rparr>,
       AddPeer \<lparr>NeighborAddress = ''10.2.0.1'', PeerAsn = 65000\<rparr>,
       AddPath \<lparr>path_Family = \<lparr>Afi = Family_AFI_IP, Safi = Family_SAFI_UNICAST\<rparr>,
          Nlri = \<lparr>ipp_Prefix = ''10.0.0.1'', PrefixLen = 32\<rparr>,
          Pattrs = [OriginAttribute 0, NextHopAttribute ''0.0.0.0'']\<rparr>])"
proof -
  let ?path = "\<lparr>path_Family = \<lparr>Afi = Family_AFI_IP, Safi = Family_SAFI_UNICAST\<rparr>,
          Nlri = \<lparr>ipp_Prefix = ''10.0.0.1'', PrefixLen = 32\<rparr>,
          Pattrs = [OriginAttribute 0, NextHopAttribute ''0.0.0.0'']\<rparr>"
  have path: "anycastPath L_demo sp_demo = Inr ?path"
    by (simp add: anycastPath_def L_demo_def sp_demo_def cfg_demo_def BGP_ORIGIN_ATTR_TYPE_IGP_def)
  have acc: "\<forall>log req. s sp_demo log req = None"
    by (simp add: sp_demo_def)
  have pol: "setupPolicies sp_peer_rejected log = (None, log @ policy_requests cfg_demo)" for log
    by (simp add: setupPolicies_def addDefinedSets_def addDefinedSet_def addPolicy_def
      addPolicyAssignment_def check_def call_def Let_def policy_requests_def
      defaultRoute_def anycastIP_def uplinks_def global_def sp_peer_rejected_def sp_demo_def)
  have st: "startBgp sp_peer_rejected [] =
      (None, [StartBgp \<lparr>Asn = 65001, RouterId = ''10.0.0.1'', ListenPort = - 1\<rparr>])"
    by (simp add: startBgp_def call_def sp_peer_rejected_def sp_demo_def cfg_demo_def)
  have nb: "addNeighbors sp_peer_rejected log =
      (Some (Err ''peer rejected''),
       log @ [AddPeer \<lparr>NeighborAddress = ''10.1.0.1'', PeerAsn = 65000\<rparr>])" for log
    by (simp add: addNeighbors_def call_def check_def sp_peer_rejected_def sp_demo_def cfg_demo_def)
  have url: "HealthCheckURL (config sp_peer_rejected) = []"
    by (simp add: sp_peer_rejected_def sp_demo_def cfg_demo_def)
  from setup_order [of L_demo sp_peer_rejected "[]" ?path, THEN conjunct1]
  have "setup_speaker L_demo sp_peer_rejected [] =
     (Some (Wrap ''error adding neighbors'' (Err ''peer rejected'')),
      [StartBgp \<lparr>Asn = 65001, RouterId = ''10.0.0.1'', ListenPort = - 1\<rparr>] @
      policy_requests cfg_demo @
      [AddPeer \<lparr>NeighborAddress = ''10.1.0.1'', PeerAsn = 65000\<rparr>])"
    by (simp add: url st pol nb)
  moreover
  have cfg: "config sp_demo = cfg_demo"
    by (simp add: sp_demo_def)
  have fields: "ASN cfg_demo = 65001" "AnycastIP cfg_demo = ''10.0.0.1''"
    "HealthCheckURL cfg_demo = []"
    "Neighbors cfg_demo = [\<lparr>Address = ''10.1.0.1'', NeighborASN = 65000\<rparr>,
                           \<lparr>Address = ''10.2.0.1'', NeighborASN = 65000\<rparr>]"
    by (simp_all add: cfg_demo_def)
  from setup_order [of L_demo sp_demo "[]" ?path, THEN conjunct2] acc path
  have "setup_speaker L_demo sp_demo [] =
     (None,
      [StartBgp \<lparr>Asn = 65001, RouterId = ''10.0.0.1'', ListenPort = - 1\<rparr>] @
      policy_requests cfg_demo @
      [AddPeer \<lparr>NeighborAddress = ''10.1.0.1'', PeerAsn = 65000\<rparr>,
       AddPeer \<lparr>NeighborAddress = ''10.2.0.1'', PeerAsn = 65000\<rparr>,
       AddPath ?path])"
    by (simp add: cfg fields peer_requests_def)
  ultimately show ?thesis using path by simp
qed

section \<open>FIB reconciler: properties\<close>

lemma dumpRequest_not_mutation: "\<not> is_mutation dumpRequest"
  by (simp add: is_mutation_def dumpRequest_def getRoute_def newRoute_def deleteRoute_def)

lemma getLinuxBGPDefaultRoute_log:
  "snd (getLinuxBGPDefaultRoute sp log) = log @ [dumpRequest]"
  by (simp add: getLinuxBGPDefaultRoute_def Execute_def dumpRequest_def split: sum.splits)

lemma firstMine_Some:
  "firstMine sp msgs = Inr (Some route) \<Longrightarrow> linuxRouteIsMine sp route \<and> RouteMsg route \<in> set msgs"
  by (induction sp msgs rule: firstMine.induct) (auto split: if_splits)

lemma getLinuxBGPDefaultRoute_Some:
  "fst (getLinuxBGPDefaultRoute sp log) = Inr (Some route) \<Longrightarrow> linuxRouteIsMine sp route"
  by (auto simp: getLinuxBGPDefaultRoute_def Execute_def split: sum.splits dest: firstMine_Some)

lemma linuxRouteIsMine_fields:
  "linuxRouteIsMine sp route \<longleftrightarrow>
     Protocol route = 186 \<and> DstLength route = 0 \<and> Table route = 254 \<and> Family route = 2 \<and>
     Type route = 1 \<and> Scope route = 0 \<and> Priority (Attributes route) = linuxRouteMetric sp"
  by (simp add: linuxRouteIsMine_def protoBgp_def rtTableMain_def familyAfInet_def typeUnicast_def
      scopeGlobal_def)

lemma Execute_err_log: "snd (Execute_err sp req log) = log @ [req]"
  by (simp add: Execute_err_def Execute_def split: sum.splits)

lemma setSinglePathRoute_owned:
  assumes "list_all (owned_or_dump sp) log"
  shows "list_all (owned_or_dump sp) (snd (setSinglePathRoute L sp path log))"
proof -
  have dump: "owned_or_dump sp dumpRequest"
    by (simp add: owned_or_dump_def dumpRequest_not_mutation)
  obtain r where r: "getLinuxBGPDefaultRoute sp log = (r, log @ [dumpRequest])"
    using getLinuxBGPDefaultRoute_log [of sp log] by (cases "getLinuxBGPDefaultRoute sp log") simp
  show ?thesis
    using assms dump
    by (auto simp: setSinglePathRoute_def r Let_def Execute_err_log owned_or_dump_def
        linuxRouteIsMine_def scopeGlobal_def
        split: sum.splits option.splits)
qed

lemma setMultiPathRoute_owned:
  assumes "list_all (owned_or_dump sp) log"
  shows "list_all (owned_or_dump sp) (snd (setMultiPathRoute L sp paths log))"
proof -
  have dump: "owned_or_dump sp dumpRequest"
    by (simp add: owned_or_dump_def dumpRequest_not_mutation)
  obtain r where r: "getLinuxBGPDefaultRoute sp log = (r, log @ [dumpRequest])"
    using getLinuxBGPDefaultRoute_log [of sp log] by (cases "getLinuxBGPDefaultRoute sp log") simp
  show ?thesis
    using assms dump
    by (auto simp: setMultiPathRoute_def r Let_def Execute_err_log owned_or_dump_def
        linuxRouteIsMine_def scopeGlobal_def
        split: sum.splits option.splits)
qed

lemma setDefaultRoute_owned:
  assumes "list_all (owned_or_dump sp) log"
  shows "list_all (owned_or_dump sp) (snd (setDefaultRoute L sp rib log))"
  using assms
  by (simp add: setDefaultRoute_def Let_def setSinglePathRoute_owned setMultiPathRoute_owned
      split: sum.splits)

lemma fib_ticks_owned:
  "list_all (owned_or_dump sp) log \<Longrightarrow> list_all (owned_or_dump sp) (fib_ticks L sp ribs log)"
  by (induction ribs arbitrary: log) (simp_all add: setDefaultRoute_owned)

lemma cleanupDefaultRoute_owned:
  assumes "list_all (owned_or_dump sp) log"
  shows "list_all (owned_or_dump sp) (snd (cleanupDefaultRoute sp log))"
proof -
  have dump: "owned_or_dump sp dumpRequest"
    by (simp add: owned_or_dump_def dumpRequest_not_mutation)
  obtain r where r: "getLinuxBGPDefaultRoute sp log = (r, log @ [dumpRequest])"
    using getLinuxBGPDefaultRoute_log [of sp log] by (cases "getLinuxBGPDefaultRoute sp log") simp
  show ?thesis
    using assms dump
    by (auto simp: cleanupDefaultRoute_def r Let_def check_def Execute_err_def Execute_def owned_or_dump_def
        linuxRouteIsMine_def scopeGlobal_def
        split: sum.splits option.splits)
qed

lemma UpdateFIB_owned:
  "list_all (owned_or_dump sp) log \<Longrightarrow> list_all (owned_or_dump sp) (snd (UpdateFIB L sp dial ribs log))"
  by (simp add: UpdateFIB_def cleanupDefaultRoute_owned fib_ticks_owned split: option.splits)

lemma collectNextHops_ok:
  "map nextHop paths = map Inr nhs \<Longrightarrow> distinct acc \<Longrightarrow>
   \<exists>hops. collectNextHops paths acc = Inr hops \<and> distinct hops \<and> set hops = set nhs \<union> set acc"
proof (induction paths arbitrary: nhs acc)
  case Nil
  then show ?case by simp
next
  case (Cons path paths)
  then obtain nh nhs' where nhs: "nhs = nh # nhs'" and nh: "nextHop path = Inr nh"
    and rest: "map nextHop paths = map Inr nhs'"
    by (cases nhs) auto
  from Cons.prems(2) have "distinct (List.insert nh acc)" by simp
  from Cons.IH [OF rest this] obtain hops
    where "collectNextHops paths (List.insert nh acc) = Inr hops" "distinct hops"
      "set hops = set nhs' \<union> set (List.insert nh acc)" by blast
  then show ?case by (auto simp: nh nhs)
qed

lemma setSinglePathRoute_noop:
  assumes "nextHop path = Inr newGateway"
    and "fst (getLinuxBGPDefaultRoute sp log) = Inr (Some old)"
    and "IP_String L (Gateway (Attributes old)) = newGateway"
  shows "setSinglePathRoute L sp path log = (None, log @ [dumpRequest])"
proof -
  have "getLinuxBGPDefaultRoute sp log = (Inr (Some old), log @ [dumpRequest])"
    using assms(2) getLinuxBGPDefaultRoute_log [of sp log]
    by (cases "getLinuxBGPDefaultRoute sp log") simp
  then show ?thesis
    using assms(1,3) by (simp add: setSinglePathRoute_def)
qed

lemma setMultiPathRoute_noop:
  assumes "map nextHop paths = map Inr nhs"
    and "fst (getLinuxBGPDefaultRoute sp log) = Inr (Some old)"
    and "Multipath (Attributes old) = Some oldNextHops"
    and "length oldNextHops = card (set nhs)"
    and "\<forall>h\<in>set oldNextHops. IP_String L (nh_Gateway h) \<in> set nhs"
  shows "setMultiPathRoute L sp paths log = (None, log @ [dumpRequest])"
proof -
  have old: "getLinuxBGPDefaultRoute sp log = (Inr (Some old), log @ [dumpRequest])"
    using assms(2) getLinuxBGPDefaultRoute_log [of sp log]
    by (cases "getLinuxBGPDefaultRoute sp log") simp
  from collectNextHops_ok [OF assms(1), of "[]"] obtain hops
    where hops: "collectNextHops paths [] = Inr hops" "distinct hops" "set hops = set nhs"
    by auto
  then have "length hops = card (set nhs)"
    using distinct_card [of hops] by simp
  with assms(4) have len: "length oldNextHops = length hops" by simp
  have eq: "routesAreEqual L oldNextHops hops"
    using assms(5) hops(3) by (simp add: routesAreEqual_def list_all_iff)
  show ?thesis
    by (simp add: setMultiPathRoute_def hops(1) old assms(3) len eq)
qed

text \<open>What the concrete kernels answer: the foreign route is passed over.\<close>

lemma demo_metric: "linuxRouteMetric sp_single = 170" "linuxRouteMetric sp_multi = 170"
  by (simp_all add: sp_single_def sp_multi_def sp_demo_def)

lemma demo_mine:
  "linuxRouteIsMine sp_single route_single" "\<not> linuxRouteIsMine sp_single route_other"
  "linuxRouteIsMine sp_multi route_multi" "\<not> linuxRouteIsMine sp_multi route_other"
  by (simp_all add: linuxRouteIsMine_fields demo_metric route_single_def route_multi_def route_other_def)

lemma demo_ours:
  "getLinuxBGPDefaultRoute sp_single log = (Inr (Some route_single), log @ [dumpRequest])"
  "getLinuxBGPDefaultRoute sp_multi log = (Inr (Some route_multi), log @ [dumpRequest])"
proof -
  have "conn sp_single log dumpRequest = Inr [RouteMsg route_other, RouteMsg route_single]"
    by (simp add: sp_single_def sp_demo_def dumpRequest_def)
  then show "getLinuxBGPDefaultRoute sp_single log = (Inr (Some route_single), log @ [dumpRequest])"
    by (simp add: getLinuxBGPDefaultRoute_def Execute_def dumpRequest_def [symmetric] demo_mine)
  have "conn sp_multi log dumpRequest = Inr [RouteMsg route_other, RouteMsg route_multi]"
    by (simp add: sp_multi_def sp_demo_def dumpRequest_def)
  then show "getLinuxBGPDefaultRoute sp_multi log = (Inr (Some route_multi), log @ [dumpRequest])"
    by (simp add: getLinuxBGPDefaultRoute_def Execute_def dumpRequest_def [symmetric] demo_mine)
qed

text \<open>A tick that installs the multipath route, then the cleanup, on the concrete kernel.\<close>

lemma snd_check_return: "snd (check m wrap (\<lambda>st. (None, st))) = snd m"
  by (cases m) (simp add: check_def split: option.splits)

lemma demo_fib_log:
  "map nl_type (snd (UpdateFIB L_demo sp_single None [Inr [dest_other, dest_multi]] [])) =
     [getRoute, newRoute, getRoute, deleteRoute]"
proof -
  have hops: "collectNextHops (Paths dest_multi) [] = Inr [''10.2.0.1'', ''10.1.0.1'']"
    by (simp add: dest_multi_def path_via_def nextHop_def)
  have build: "\<exists>hs. buildNextHops L_demo [''10.2.0.1'', ''10.1.0.1''] = Inr hs"
    by (simp add: L_demo_def To4_demo_def)
  have multi: "map nl_type (snd (setMultiPathRoute L_demo sp_single (Paths dest_multi) [])) =
                 [getRoute, newRoute]"
    using build
    by (auto simp: setMultiPathRoute_def hops demo_ours route_single_def Execute_err_log dumpRequest_def)
  have tick: "snd (setDefaultRoute L_demo sp_single (Inr [dest_other, dest_multi]) []) =
                snd (setMultiPathRoute L_demo sp_single (Paths dest_multi) [])"
    by (simp add: setDefaultRoute_def Let_def dest_other_def zeroPrefix_def)
       (simp add: dest_multi_def)
  have clean: "map nl_type (snd (cleanupDefaultRoute sp_single log)) =
                 map nl_type log @ [getRoute, deleteRoute]" for log
    by (simp add: cleanupDefaultRoute_def Let_def demo_ours snd_check_return Execute_err_log
        dumpRequest_def)
  show ?thesis
    by (simp add: UpdateFIB_def tick clean multi)
qed

text \<open>
  C6. On a tick on which \<open>ListPath\<close> succeeds: with no destination for \<open>0.0.0.0/0\<close>
  \<open>setDefaultRoute\<close> returns \<open>nil\<close>, and with more than one it returns an error; in
  both cases it makes no request to the kernel.
\<close>

theorem setDefaultRoute_zero_or_many:
  "(filter (\<lambda>d. Prefix d = zeroPrefix) ds = [] \<longrightarrow>
      setDefaultRoute L sp (Inr ds) log = (None, log)) \<and>
   (length (filter (\<lambda>d. Prefix d = zeroPrefix) ds) > 1 \<longrightarrow>
      setDefaultRoute L sp (Inr ds) log =
        (Some (Wrap ''unexpeted number of default routes'' ErrUnsupported), log))"
  by (simp add: setDefaultRoute_def Let_def)

theorem setDefaultRoute_zero_or_many_witness:
  "setDefaultRoute L_demo sp_single (Inr [dest_other]) [] = (None, []) \<and>
   setDefaultRoute L_demo sp_single (Inr [dest_single, dest_other, dest_multi]) [] =
     (Some (Wrap ''unexpeted number of default routes'' ErrUnsupported), [])"
  using setDefaultRoute_zero_or_many [of "[dest_other]" L_demo sp_single "[]"]
    setDefaultRoute_zero_or_many [of "[dest_single, dest_other, dest_multi]" L_demo sp_single "[]"]
  by (simp add: dest_other_def dest_single_def dest_multi_def zeroPrefix_def)

text \<open>
  C5. On a tick with exactly one destination for \<open>0.0.0.0/0\<close> and a kernel route
  selected as "ours" that agrees with it, \<open>setDefaultRoute\<close> returns \<open>nil\<close> and its only
  request to the kernel is the dump: no route is replaced. Agreement is, for a
  destination with one path, that the gateway of the route renders as the next hop of
  the path; for any other number of paths, that every path has a next hop, the route
  has a multipath attribute with as many entries as there are distinct next hops, and
  the gateway of every entry is one of the next hops.
\<close>

theorem reconciler_noop:
  assumes one: "filter (\<lambda>d. Prefix d = zeroPrefix) ds = [d]"
    and ours: "fst (getLinuxBGPDefaultRoute sp log) = Inr (Some old)"
    and agree:
      "(\<exists>path. Paths d = [path] \<and> nextHop path = Inr (IP_String L (Gateway (Attributes old)))) \<or>
       (length (Paths d) \<noteq> 1 \<and>
        (\<exists>nhs oldNextHops.
           map nextHop (Paths d) = map Inr nhs \<and>
           Multipath (Attributes old) = Some oldNextHops \<and>
           length oldNextHops = card (set nhs) \<and>
           (\<forall>h\<in>set oldNextHops. IP_String L (nh_Gateway h) \<in> set nhs)))"
  shows "setDefaultRoute L sp (Inr ds) log = (None, log @ [dumpRequest]) \<and>
         \<not> is_mutation dumpRequest \<and>
         filter is_mutation (snd (setDefaultRoute L sp (Inr ds) log)) = filter is_mutation log"
proof -
  have "setDefaultRoute L sp (Inr ds) log = (None, log @ [dumpRequest])"
    using agree
  proof (elim disjE exE conjE)
    fix path
    assume p: "Paths d = [path]" and "nextHop path = Inr (IP_String L (Gateway (Attributes old)))"
    then have "setSinglePathRoute L sp path log = (None, log @ [dumpRequest])"
      using ours by (intro setSinglePathRoute_noop) simp_all
    then show ?thesis
      by (simp add: setDefaultRoute_def one p)
  next
    fix nhs oldNextHops
    assume "length (Paths d) \<noteq> 1" and "map nextHop (Paths d) = map Inr nhs"
      and "Multipath (Attributes old) = Some oldNextHops"
      and "length oldNextHops = card (set nhs)"
      and "\<forall>h\<in>set oldNextHops. IP_String L (nh_Gateway h) \<in> set nhs"
    moreover from this have "setMultiPathRoute L sp (Paths d) log = (None, log @ [dumpRequest])"
      using ours by (intro setMultiPathRoute_noop)
    ultimately show ?thesis
      by (simp add: setDefaultRoute_def one)
  qed
  then show ?thesis
    by (simp add: dumpRequest_not_mutation)
qed

theorem reconciler_noop_witness:
  "filter (\<lambda>d. Prefix d = zeroPrefix) [dest_other, dest_single] = [dest_single] \<and>
   fst (getLinuxBGPDefaultRoute sp_single []) = Inr (Some route_single) \<and>
   Paths dest_single = [path_via ''10.1.0.1''] \<and>
   nextHop (path_via ''10.1.0.1'') = Inr (IP_String L_demo (Gateway (Attributes route_single))) \<and>
   setDefaultRoute L_demo sp_single (Inr [dest_other, dest_single]) [] = (None, [dumpRequest]) \<and>
   filter (\<lambda>d. Prefix d = zeroPrefix) [dest_other, dest_multi] = [dest_multi] \<and>
   fst (getLinuxBGPDefaultRoute sp_multi []) = Inr (Some route_multi) \<and>
   map nextHop (Paths dest_multi) = map Inr [''10.1.0.1'', ''10.2.0.1''] \<and>
   Multipath (Attributes route_multi) =
     Some [\<lparr>nh_Gateway = [10, 2, 0, 1]\<rparr>, \<lparr>nh_Gateway = [10, 1, 0, 1]\<rparr>] \<and>
   setDefaultRoute L_demo sp_multi (Inr [dest_other, dest_multi]) [] = (None, [dumpRequest])"
proof -
  have one: "filter (\<lambda>d. Prefix d = zeroPrefix) [dest_other, dest_single] = [dest_single]"
    and one': "filter (\<lambda>d. Prefix d = zeroPrefix) [dest_other, dest_multi] = [dest_multi]"
    by (simp_all add: dest_other_def dest_single_def dest_multi_def zeroPrefix_def)
  have ours: "fst (getLinuxBGPDefaultRoute sp_single []) = Inr (Some route_single)"
    and ours': "fst (getLinuxBGPDefaultRoute sp_multi []) = Inr (Some route_multi)"
    by (simp_all add: demo_ours)
  have paths: "Paths dest_single = [path_via ''10.1.0.1'']"
    and gw: "nextHop (path_via ''10.1.0.1'') =
               Inr (IP_String L_demo (Gateway (Attributes route_single)))"
    by (simp_all add: dest_single_def path_via_def nextHop_def L_demo_def To4_demo_def route_single_def)
  have hops: "map nextHop (Paths dest_multi) = map Inr [''10.1.0.1'', ''10.2.0.1'']"
    and mp: "Multipath (Attributes route_multi) =
               Some [\<lparr>nh_Gateway = [10, 2, 0, 1]\<rparr>, \<lparr>nh_Gateway = [10, 1, 0, 1]\<rparr>]"
    and n: "length (Paths dest_multi) \<noteq> 1"
    by (simp_all add: dest_multi_def path_via_def nextHop_def route_multi_def)
  have len: "length [\<lparr>nh_Gateway = [10, 2, 0, 1]\<rparr>, \<lparr>nh_Gateway = [10, 1, 0, 1 :: 8 word]\<rparr>] =
               card (set [''10.1.0.1'', ''10.2.0.1''])"
    by simp
  have mem: "\<forall>h\<in>set [\<lparr>nh_Gateway = [10, 2, 0, 1]\<rparr>, \<lparr>nh_Gateway = [10, 1, 0, 1]\<rparr>].
               IP_String L_demo (nh_Gateway h) \<in> set [''10.1.0.1'', ''10.2.0.1'']"
    by (simp add: L_demo_def To4_demo_def)
  have "setDefaultRoute L_demo sp_single (Inr [dest_other, dest_single]) [] = (None, [dumpRequest])"
    using reconciler_noop [OF one ours, of L_demo] paths gw by simp
  moreover have "(\<exists>path. Paths dest_multi = [path] \<and>
            nextHop path = Inr (IP_String L_demo (Gateway (Attributes route_multi)))) \<or>
       (length (Paths dest_multi) \<noteq> 1 \<and>
        (\<exists>nhs oldNextHops.
           map nextHop (Paths dest_multi) = map Inr nhs \<and>
           Multipath (Attributes route_multi) = Some oldNextHops \<and>
           length oldNextHops = card (set nhs) \<and>
           (\<forall>h\<in>set oldNextHops. IP_String L_demo (nh_Gateway h) \<in> set nhs)))"
    using n hops mp len mem by blast
  from reconciler_noop [OF one' ours' this]
  have "setDefaultRoute L_demo sp_multi (Inr [dest_other, dest_multi]) [] = (None, [dumpRequest])"
    by simp
  ultimately show ?thesis
    using one one' ours ours' paths gw hops mp by simp
qed

text \<open>
  C7. A kernel route is owned if and only if its protocol is 186, its destination
  length 0, its table 254, its family 2 (AF_INET), its type 1 (unicast), its scope 0
  (global) and its priority the speaker's route metric. The route that
  \<open>getLinuxBGPDefaultRoute\<close> selects is owned, so a route that fails one of the seven
  conditions is never selected; and the message of every request of the reconciler
  that changes routes is itself owned.
\<close>

theorem ours_predicate:
  "(linuxRouteIsMine sp route \<longleftrightarrow>
      Protocol route = 186 \<and> DstLength route = 0 \<and> Table route = 254 \<and> Family route = 2 \<and>
      Type route = 1 \<and> Scope route = 0 \<and> Priority (Attributes route) = linuxRouteMetric sp) \<and>
   (fst (getLinuxBGPDefaultRoute sp log) = Inr (Some route) \<longrightarrow> linuxRouteIsMine sp route) \<and>
   (\<forall>req\<in>set (snd (UpdateFIB L sp dial ribs [])).
      is_mutation req \<longrightarrow> linuxRouteIsMine sp (nl_msg req))"
proof -
  have "list_all (owned_or_dump sp) (snd (UpdateFIB L sp dial ribs []))"
    by (rule UpdateFIB_owned) simp
  then have "\<forall>req\<in>set (snd (UpdateFIB L sp dial ribs [])).
      is_mutation req \<longrightarrow> linuxRouteIsMine sp (nl_msg req)"
    by (simp add: list_all_iff owned_or_dump_def)
  then show ?thesis
    using linuxRouteIsMine_fields [of sp route] getLinuxBGPDefaultRoute_Some [of sp log route]
    by blast
qed

theorem ours_predicate_witness:
  "linuxRouteIsMine sp_single route_single \<and>
   \<not> linuxRouteIsMine sp_single route_other \<and>
   fst (getLinuxBGPDefaultRoute sp_single []) = Inr (Some route_single) \<and>
   map nl_type (snd (UpdateFIB L_demo sp_single None [Inr [dest_other, dest_multi]] [])) =
     [getRoute, newRoute, getRoute, deleteRoute] \<and>
   list_all (\<lambda>req. linuxRouteIsMine sp_single (nl_msg req))
     (filter is_mutation (snd (UpdateFIB L_demo sp_single None [Inr [dest_other, dest_multi]] [])))"
  using ours_predicate [of sp_single route_single "[]" L_demo None "[Inr [dest_other, dest_multi]]"]
    ours_predicate [of sp_single route_other "[]" L_demo None "[Inr [dest_other, dest_multi]]"]
  by (simp add: demo_ours demo_metric demo_fib_log route_single_def route_other_def list_all_iff)

end
